theory Spec2Isabelle
  imports Main
begin

section \<open>The course notifier: a shallow embedding of main.py\<close>

text \<open>
  The program is one run of a pipeline: load the snapshot file, fetch and parse the
  listing pages, take the courses whose id the snapshot does not hold, send one message
  for each of them, write the snapshot. Every function of main.py is a definition here,
  under its own name. What a function does beyond returning a value (the log, the HTTP
  requests, the messages, the snapshot file) is a field of the record \<open>world\<close>, passed in
  and returned; an exception is the \<open>Inl\<close> of a sum.
\<close>

subsection \<open>Python values\<close>

text \<open>
  The exceptions that leave a function of main.py. \<open>SystemExit n\<close> is \<open>sys.exit(n)\<close>;
  \<open>AttributeError a\<close> is the lookup of attribute \<open>a\<close> on an object that has none of that
  name; \<open>TypeError t\<close> is the iteration over an object of type \<open>t\<close>, which is not iterable.
\<close>

datatype exn = SystemExit int | AttributeError string | TypeError string

text \<open>The exit status of the process: 0 when main returns, the argument of sys.exit, 1 for
  an exception nobody catches.\<close>

fun exit_status :: "exn + unit \<Rightarrow> int" where
  "exit_status (Inr _) = 0"
| "exit_status (Inl (SystemExit n)) = n"
| "exit_status (Inl _) = 1"

text \<open>\<open>str.strip()\<close>: the characters Python counts as white space, among the first 256.\<close>

definition isspace :: "char \<Rightarrow> bool" where
  "isspace c = ((of_char c :: nat) \<in> {9, 10, 11, 12, 13, 28, 29, 30, 31, 32, 133, 160})"

definition strip :: "string \<Rightarrow> string" where
  "strip s = rev (dropWhile isspace (rev (dropWhile isspace s)))"

text \<open>\<open>str(n)\<close> for an integer: decimal digits, a minus sign in front of a negative one.\<close>

fun str_nat :: "nat \<Rightarrow> string" where
  "str_nat n = (if n < 10 then [''0123456789'' ! n] else str_nat (n div 10) @ [''0123456789'' ! (n mod 10)])"

definition str_int :: "int \<Rightarrow> string" where
  "str_int i = (if i < 0 then CHR ''-'' # str_nat (nat (- i)) else str_nat (nat i))"

subsection \<open>Courses\<close>

text \<open>The dictionary that parse_course builds, with its four keys; \<open>course_id\<close> is the key \<open>id\<close>.\<close>

record course =
  course_id :: string
  title :: string
  date :: string
  description :: string

text \<open>
  What parse_course reads in one \<open>div\<close> of class hs-event. The HTML parser is a library, so
  a course block is given by the answers to the three lookups of parse_course:
  the text of the \<open>h3\<close> of class hs-event-titel (None when there is none), the text of the
  \<open>span\<close> of class hs-curse-discription, and the date lookup, which fails at the \<open>div\<close> of
  class hs-dates, at its first \<open>span\<close>, or at the sibling that follows the span.
\<close>

datatype dates_lookup = NoDatesDiv | NoSpan | NoSibling | SiblingText string

record course_element =
  hs_event_titel :: "string option"
  hs_dates :: dates_lookup
  hs_curse_discription :: "string option"

definition unique_string :: "string \<Rightarrow> string \<Rightarrow> string \<Rightarrow> string" where
  "unique_string t d x = t @ d @ x"

text \<open>
  parse_course. The digest \<open>hashlib.md5(s.encode()).hexdigest()\<close> is the parameter \<open>md5\<close>.
  A lookup that finds nothing returns None, and the attribute read on it raises.
\<close>

definition parse_course :: "(string \<Rightarrow> string) \<Rightarrow> course_element \<Rightarrow> exn + course" where
  "parse_course md5 el =
     (case hs_event_titel el of
        None \<Rightarrow> Inl (AttributeError ''text'')
      | Some t \<Rightarrow>
          (case hs_dates el of
             NoDatesDiv \<Rightarrow> Inl (AttributeError ''span'')
           | NoSpan \<Rightarrow> Inl (AttributeError ''find_next_sibling'')
           | NoSibling \<Rightarrow> Inl (AttributeError ''text'')
           | SiblingText d \<Rightarrow>
               (case hs_curse_discription el of
                  None \<Rightarrow> Inl (AttributeError ''text'')
                | Some x \<Rightarrow>
                    Inr \<lparr>course_id = md5 (unique_string (strip t) (strip d) (strip x)),
                         title = strip t, date = strip d, description = strip x\<rparr>)))"

subsection \<open>The snapshot file and the differencer\<close>

text \<open>
  The content of courses.yml as the YAML library reads it: an empty document, or a
  sequence of course mappings. \<open>yaml.safe_load\<close> gives None for the first and the list for
  the second; \<open>yaml.dump\<close> of a list writes the second.
\<close>

datatype yaml_doc = EmptyDoc | SeqDoc "course list"

datatype pyval = PyNone | PyList "course list"

fun yaml_safe_load :: "yaml_doc \<Rightarrow> pyval" where
  "yaml_safe_load EmptyDoc = PyNone"
| "yaml_safe_load (SeqDoc cs) = PyList cs"

definition yaml_dump :: "course list \<Rightarrow> yaml_doc" where
  "yaml_dump cs = SeqDoc cs"

text \<open>
  The loop of main that fills \<open>new_courses\<close>:
  \<^verbatim>\<open>for e in current_courses:
    if not any(e["id"] == f["id"] for f in existing_courses):
        new_courses.append(e)\<close>
  The generator is iterated once for each \<open>e\<close>, so a value that is no sequence raises at the
  first course, and is never looked at when there is no course.
\<close>

fun new_courses_loop :: "pyval \<Rightarrow> course list \<Rightarrow> course list \<Rightarrow> exn + course list" where
  "new_courses_loop existing_courses [] new_courses = Inr new_courses"
| "new_courses_loop existing_courses (e # es) new_courses =
     (case existing_courses of
        PyNone \<Rightarrow> Inl (TypeError ''NoneType'')
      | PyList fs \<Rightarrow>
          new_courses_loop existing_courses es
            (if \<not> list_ex (\<lambda>f. course_id e = course_id f) fs then new_courses @ [e] else new_courses))"

subsection \<open>The world of one run\<close>

text \<open>
  What a run reads and changes outside its own variables: the file courses.yml (None when
  the path does not exist), the lines appended to app.log, the URLs requested with
  \<open>requests.get\<close>, and the calls of \<open>bot.send_message\<close>, each with the text sent and
  None when it was delivered, or the text of the exception it raised.
\<close>

datatype log_entry = INFO string | ERROR string

record world =
  courses_yml :: "yaml_doc option"
  app_log :: "log_entry list"
  requested :: "string list"
  sends :: "(string \<times> string option) list"

definition logging_info :: "string \<Rightarrow> world \<Rightarrow> world" where
  "logging_info msg w = w\<lparr>app_log := app_log w @ [INFO msg]\<rparr>"

definition logging_error :: "string \<Rightarrow> world \<Rightarrow> world" where
  "logging_error msg w = w\<lparr>app_log := app_log w @ [ERROR msg]\<rparr>"

text \<open>
  A fetched page, as the two lookups of get_courses and get_course_page see it: the \<open>li\<close>
  elements of the \<open>ul\<close> of class pagination (None when the page has no such \<open>ul\<close>), and the
  \<open>div\<close> elements of class hs-event, in document order.
\<close>

record page =
  pagination :: "string list option"
  hs_events :: "course_element list"

text \<open>
  The event loop is an object of the asyncio library, and main uses one attribute of it,
  \<open>run\<close>. \<open>LoopWithoutRun\<close> is a loop object with no attribute of that name: the lookup
  \<open>loop.run\<close> raises AttributeError, before the argument of the call is evaluated. The loops
  of the standard library are of this kind: they have \<open>run_until_complete\<close> and
  \<open>run_forever\<close>. \<open>LoopWithRun\<close> is a loop object whose \<open>run\<close> drives the coroutine to its
  end and lets its exceptions through, as \<open>run_until_complete\<close> does.
\<close>

datatype event_loop = LoopWithoutRun | LoopWithRun

definition asyncio_get_event_loop :: event_loop where
  "asyncio_get_event_loop = LoopWithoutRun"

text \<open>
  What a run is given and does not change: the digest, the web site (for a URL, the page
  or the text of the exception that \<open>requests.get\<close> raises), the messaging service (for
  the number of calls made so far and a text, None when the message is delivered or the
  text of the exception), and the event loop that \<open>asyncio.get_event_loop()\<close> returns.
\<close>

record env =
  md5_hexdigest :: "string \<Rightarrow> string"
  requests_get :: "string \<Rightarrow> string + page"
  send_message :: "nat \<Rightarrow> string \<Rightarrow> string option"
  get_event_loop :: event_loop

definition COURSE_URL :: string where
  "COURSE_URL = ''https://hacker-school.de/unterstuetzen/inspirer/checkin-inspirer-yourschool/?formats%5B%5D=ys''"

subsection \<open>The notifier\<close>

definition course_message :: "course \<Rightarrow> string" where
  "course_message c =
     ''New course available:'' @ [CHR 0x0A, CHR 0x0A] @ title c @ [CHR 0x0A] @ date c
       @ [CHR 0x0A, CHR 0x0A] @ ''Check it out at '' @ COURSE_URL"

text \<open>\<open>message.replace("\n", "\\n")\<close>: a backslash and the letter n for every line feed.\<close>

definition escape_newlines :: "string \<Rightarrow> string" where
  "escape_newlines s = concat (map (\<lambda>c. if c = CHR 0x0A then [CHR 0x5C, CHR ''n''] else [c]) s)"

text \<open>post_new_courses, run to its end: one send for each course, in order; the first send
  that raises is logged and ends the process with \<open>sys.exit(1)\<close>.\<close>

fun post_new_courses :: "env \<Rightarrow> course list \<Rightarrow> world \<Rightarrow> (exn + unit) \<times> world" where
  "post_new_courses E [] w = (Inr (), w)"
| "post_new_courses E (c # cs) w =
     (case send_message E (length (sends w)) (course_message c) of
        None \<Rightarrow>
          post_new_courses E cs
            (logging_info (''Message sent: '' @ escape_newlines (course_message c))
               (w\<lparr>sends := sends w @ [(course_message c, None)]\<rparr>))
      | Some err \<Rightarrow>
          (Inl (SystemExit 1),
           logging_error (''Error: '' @ err) (w\<lparr>sends := sends w @ [(course_message c, Some err)]\<rparr>)))"

subsection \<open>The snapshot store\<close>

definition load_existing_courses :: "world \<Rightarrow> pyval" where
  "load_existing_courses w =
     (case courses_yml w of Some doc \<Rightarrow> yaml_safe_load doc | None \<Rightarrow> PyList [])"

definition save_courses :: "course list \<Rightarrow> world \<Rightarrow> world" where
  "save_courses courses w = w\<lparr>courses_yml := Some (yaml_dump courses)\<rparr>"

subsection \<open>Fetching and parsing the pages\<close>

text \<open>The loop of get_course_page over the course blocks: the first block that does not
  parse raises, and nothing catches it.\<close>

fun parse_elements :: "(string \<Rightarrow> string) \<Rightarrow> course_element list \<Rightarrow> course list \<Rightarrow> exn + course list" where
  "parse_elements md5 [] courses = Inr courses"
| "parse_elements md5 (el # els) courses =
     (case parse_course md5 el of
        Inl e \<Rightarrow> Inl e
      | Inr c \<Rightarrow> parse_elements md5 els (courses @ [c]))"

definition page_url :: "int \<Rightarrow> string" where
  "page_url page_number = COURSE_URL @ ''&event_page='' @ str_int page_number"

text \<open>get_course_page: with a page given, no request is made; without one, the page is
  fetched and a failed request is logged and ends the process.\<close>

definition get_course_page :: "env \<Rightarrow> int \<Rightarrow> page option \<Rightarrow> world \<Rightarrow> (exn + course list) \<times> world" where
  "get_course_page E page_number pg w =
     (case pg of
        Some p \<Rightarrow> (parse_elements (md5_hexdigest E) (hs_events p) [], w)
      | None \<Rightarrow>
          (let w1 = w\<lparr>requested := requested w @ [page_url page_number]\<rparr> in
           case requests_get E (page_url page_number) of
             Inl err \<Rightarrow> (Inl (SystemExit 1), logging_error (''Error fetching courses: '' @ err) w1)
           | Inr p \<Rightarrow> (parse_elements (md5_hexdigest E) (hs_events p) [], w1)))"

text \<open>The loop \<open>for page in range(2, last_page+1): courses += get_course_page(page)\<close>.\<close>

fun pages_loop :: "env \<Rightarrow> int list \<Rightarrow> course list \<Rightarrow> world \<Rightarrow> (exn + course list) \<times> world" where
  "pages_loop E [] courses w = (Inr courses, w)"
| "pages_loop E (n # ns) courses w =
     (case get_course_page E n None w of
        (Inl e, w1) \<Rightarrow> (Inl e, w1)
      | (Inr cs, w1) \<Rightarrow> pages_loop E ns (courses @ cs) w1)"

definition last_page :: "string list \<Rightarrow> int" where
  "last_page pagination_items = int (length pagination_items) - 2"

definition get_courses :: "env \<Rightarrow> world \<Rightarrow> (exn + course list) \<times> world" where
  "get_courses E w =
     (let w1 = w\<lparr>requested := requested w @ [COURSE_URL]\<rparr> in
      case requests_get E COURSE_URL of
        Inl err \<Rightarrow> (Inl (SystemExit 1), logging_error (''Error fetching courses: '' @ err) w1)
      | Inr response \<Rightarrow>
          (case pagination response of
             None \<Rightarrow> (Inr [], logging_error ''Pagination container not found'' w1)
           | Some pagination_items \<Rightarrow>
               (case get_course_page E 1 (Some response) w1 of
                  (Inl e, w2) \<Rightarrow> (Inl e, w2)
                | (Inr courses, w2) \<Rightarrow>
                    if last_page pagination_items < 2 then (Inr courses, w2)
                    else pages_loop E [2..last_page pagination_items] courses w2)))"

subsection \<open>The orchestrator\<close>

text \<open>
  main. The statement \<open>loop.run(post_new_courses(new_courses))\<close> first looks up \<open>run\<close> on the
  loop, then makes the coroutine, then calls; save_courses follows only when the call
  returns.
\<close>

definition main :: "env \<Rightarrow> world \<Rightarrow> (exn + unit) \<times> world" where
  "main E w =
     (let w0 = logging_info ''Running!'' w;
          existing_courses = load_existing_courses w0 in
      case get_courses E w0 of
        (Inl e, w1) \<Rightarrow> (Inl e, w1)
      | (Inr current_courses, w1) \<Rightarrow>
          (case new_courses_loop existing_courses current_courses [] of
             Inl e \<Rightarrow> (Inl e, w1)
           | Inr new_courses \<Rightarrow>
               if new_courses \<noteq> [] then
                 (case get_event_loop E of
                    LoopWithoutRun \<Rightarrow> (Inl (AttributeError ''run''), w1)
                  | LoopWithRun \<Rightarrow>
                      (case post_new_courses E new_courses w1 of
                         (Inl e, w2) \<Rightarrow> (Inl e, w2)
                       | (Inr u, w2) \<Rightarrow>
                           (Inr (), logging_info ''New courses found and posted.''
                                      (save_courses current_courses w2))))
               else (Inr (), logging_info ''No new courses found.'' w1)))"

subsection \<open>Example runs\<close>

text \<open>
  The inputs of the examples below. \<open>identity_digest\<close> stands for a digest without
  collisions; \<open>course_block\<close> is a course block in which all three lookups succeed;
  \<open>listing_page n blocks\<close> is a page with \<open>n\<close> list items in its pagination container;
  \<open>site\<close> answers the requests for the listed URLs and times out on every other one.
\<close>

definition identity_digest :: "string \<Rightarrow> string" where
  "identity_digest s = s"

definition course_block :: "string \<Rightarrow> string \<Rightarrow> string \<Rightarrow> course_element" where
  "course_block t d x = \<lparr>hs_event_titel = Some t, hs_dates = SiblingText d, hs_curse_discription = Some x\<rparr>"

definition listing_page :: "nat \<Rightarrow> course_element list \<Rightarrow> page" where
  "listing_page n blocks = \<lparr>pagination = Some (replicate n ''li''), hs_events = blocks\<rparr>"

definition site :: "(string \<times> page) list \<Rightarrow> string \<Rightarrow> string + page" where
  "site pages url = (case map_of pages url of Some p \<Rightarrow> Inr p | None \<Rightarrow> Inl ''timed out'')"

definition fresh_world :: "yaml_doc option \<Rightarrow> world" where
  "fresh_world f = \<lparr>courses_yml = f, app_log = [], requested = [], sends = []\<rparr>"

definition block_A :: course_element where
  "block_A = course_block '' Python '' ''01.02.2025'' ''Intro''"

definition block_B :: course_element where
  "block_B = course_block ''X'' ''Y'' ''Z''"

definition block_C :: course_element where
  "block_C = course_block ''Rust'' ''03.04.2025'' ''Ownership''"

definition course_A :: course where
  "course_A = \<lparr>course_id = ''Python01.02.2025Intro'', title = ''Python'', date = ''01.02.2025'',
                description = ''Intro''\<rparr>"

definition course_B :: course where
  "course_B = \<lparr>course_id = ''XYZ'', title = ''X'', date = ''Y'', description = ''Z''\<rparr>"

definition course_C :: course where
  "course_C = \<lparr>course_id = ''Rust03.04.2025Ownership'', title = ''Rust'', date = ''03.04.2025'',
                description = ''Ownership''\<rparr>"

text \<open>A site of one page with the courses A and B, a service that delivers every message.\<close>

definition env_AB :: "event_loop \<Rightarrow> env" where
  "env_AB l = \<lparr>md5_hexdigest = identity_digest,
               requests_get = site [(COURSE_URL, listing_page 3 [block_A, block_B])],
               send_message = (\<lambda>n text. None),
               get_event_loop = l\<rparr>"


text \<open>A site of two pages: page 1 with course A, four list items in its pagination
  container; page 2 with the courses B and A.\<close>

definition env_two_pages :: env where
  "env_two_pages = \<lparr>md5_hexdigest = identity_digest,
                     requests_get = site [(COURSE_URL, listing_page 4 [block_A]),
                                          (page_url 2, listing_page 4 [block_B, block_A])],
                     send_message = (\<lambda>n text. None),
                     get_event_loop = asyncio_get_event_loop\<rparr>"

text \<open>The same two pages, with two list items in the pagination container of page 1.\<close>

definition env_prev_next :: env where
  "env_prev_next = \<lparr>md5_hexdigest = identity_digest,
                     requests_get = site [(COURSE_URL, listing_page 2 [block_A]),
                                          (page_url 2, listing_page 2 [block_B, block_A])],
                     send_message = (\<lambda>n text. None),
                     get_event_loop = asyncio_get_event_loop\<rparr>"

text \<open>A page with a course block and no pagination container.\<close>

definition env_no_pagination :: env where
  "env_no_pagination = \<lparr>md5_hexdigest = identity_digest,
                         requests_get = site [(COURSE_URL, \<lparr>pagination = None, hs_events = [block_A]\<rparr>)],
                         send_message = (\<lambda>n text. None),
                         get_event_loop = asyncio_get_event_loop\<rparr>"

section \<open>Helper lemmas\<close>

lemma new_courses_loop_acc:
  "new_courses_loop (PyList fs) es acc =
     Inr (acc @ filter (\<lambda>e. course_id e \<notin> course_id ` set fs) es)"
proof (induction es arbitrary: acc)
  case Nil
  show ?case by simp
next
  case (Cons e es)
  have "list_ex (\<lambda>f. course_id e = course_id f) fs \<longleftrightarrow> course_id e \<in> course_id ` set fs"
    by (auto simp: list_ex_iff)
  then show ?case using Cons.IH by simp
qed


lemma parse_elements_acc:
  "(\<And>el. el \<in> set els \<Longrightarrow> parse_course md5 el = Inr (pc el)) \<Longrightarrow>
   parse_elements md5 els acc = Inr (acc @ map pc els)"
  by (induction els arbitrary: acc) simp_all

lemma get_course_page_frame:
  "get_course_page E n pg w = (r, w') \<Longrightarrow> sends w' = sends w \<and> courses_yml w' = courses_yml w"
  by (auto simp: get_course_page_def logging_error_def Let_def split: option.splits sum.splits)

lemma pages_loop_frame:
  "pages_loop E ns acc w = (r, w') \<Longrightarrow> sends w' = sends w \<and> courses_yml w' = courses_yml w"
proof (induction ns arbitrary: acc w)
  case Nil
  then show ?case by simp
next
  case (Cons n ns)
  obtain r1 w1 where g: "get_course_page E n None w = (r1, w1)" by (cases "get_course_page E n None w")
  note f = get_course_page_frame[OF g]
  show ?case
  proof (cases r1)
    case (Inl e)
    with Cons.prems g f show ?thesis by simp
  next
    case (Inr cs)
    with Cons.prems g have "pages_loop E ns (acc @ cs) w1 = (r, w')" by simp
    from Cons.IH[OF this] f show ?thesis by simp
  qed
qed

lemma get_courses_frame:
  "get_courses E w = (r, w') \<Longrightarrow> sends w' = sends w \<and> courses_yml w' = courses_yml w"
  unfolding get_courses_def Let_def
  by (auto simp: logging_error_def split: sum.splits option.splits prod.splits if_splits
      dest!: get_course_page_frame pages_loop_frame)

lemma get_course_page_result:
  "fst (get_course_page E n pg w) = fst (get_course_page E n pg v)"
  by (auto simp: get_course_page_def Let_def split: option.splits sum.splits)

lemma pages_loop_result:
  "fst (pages_loop E ns acc w) = fst (pages_loop E ns acc v)"
proof (induction ns arbitrary: acc w v)
  case Nil
  show ?case by simp
next
  case (Cons n ns)
  obtain r1 w1 where g: "get_course_page E n None w = (r1, w1)" by (cases "get_course_page E n None w")
  obtain r2 v1 where h: "get_course_page E n None v = (r2, v1)" by (cases "get_course_page E n None v")
  from get_course_page_result[of E n None w v] g h have eq: "r2 = r1" by simp
  show ?case
  proof (cases r1)
    case (Inl e)
    with g h eq show ?thesis by simp
  next
    case (Inr cs)
    with g h eq Cons.IH[of "acc @ cs" w1 v1] show ?thesis by simp
  qed
qed

lemma get_courses_result:
  "fst (get_courses E w) = fst (get_courses E v)"
proof (cases "requests_get E COURSE_URL")
  case (Inl err)
  then show ?thesis by (simp add: get_courses_def Let_def)
next
  case (Inr response)
  show ?thesis
  proof (cases "pagination response")
    case None
    with Inr show ?thesis by (simp add: get_courses_def Let_def)
  next
    case (Some items)
    show ?thesis
    proof (cases "parse_elements (md5_hexdigest E) (hs_events response) []")
      case (Inl e)
      with Inr Some show ?thesis by (simp add: get_courses_def Let_def get_course_page_def)
    next
      case r: (Inr courses)
      with Inr Some pages_loop_result[of E _ courses] show ?thesis
        by (simp add: get_courses_def Let_def get_course_page_def)
    qed
  qed
qed


lemma load_existing_courses_logged:
  "load_existing_courses (logging_info msg w) = load_existing_courses w"
  by (simp add: load_existing_courses_def logging_info_def)

lemma pages_loop_ok:
  assumes "\<forall>n \<in> set ns. requests_get E (page_url n) = Inr (pg n)"
    and "\<forall>n \<in> set ns. \<forall>el \<in> set (hs_events (pg n)). parse_course (md5_hexdigest E) el = Inr (pc el)"
  shows "pages_loop E ns acc w =
           (Inr (acc @ concat (map (\<lambda>n. map pc (hs_events (pg n))) ns)),
            w\<lparr>requested := requested w @ map page_url ns\<rparr>)"
  using assms
proof (induction ns arbitrary: acc w)
  case Nil
  show ?case by simp
next
  case (Cons n ns)
  have r: "requests_get E (page_url n) = Inr (pg n)" using Cons.prems(1) by simp
  have "parse_elements (md5_hexdigest E) (hs_events (pg n)) [] = Inr ([] @ map pc (hs_events (pg n)))"
    by (rule parse_elements_acc) (use Cons.prems(2) in simp)
  with r have g: "get_course_page E n None w =
      (Inr (map pc (hs_events (pg n))), w\<lparr>requested := requested w @ [page_url n]\<rparr>)"
    by (simp add: get_course_page_def Let_def)
  have a: "\<forall>k \<in> set ns. requests_get E (page_url k) = Inr (pg k)"
    using Cons.prems(1) by simp
  have b: "\<forall>k \<in> set ns. \<forall>el \<in> set (hs_events (pg k)). parse_course (md5_hexdigest E) el = Inr (pc el)"
    using Cons.prems(2) by simp
  from g Cons.IH[OF a b] show ?case by simp
qed

lemma new_courses_loop_self: "new_courses_loop (PyList cs) cs [] = Inr []"
proof -
  have "filter (\<lambda>e. course_id e \<notin> course_id ` set cs) cs = []"
    by (simp add: filter_empty_conv)
  then show ?thesis by (simp add: new_courses_loop_acc)
qed

lemma main_no_new:
  assumes "get_courses E (logging_info ''Running!'' w) = (Inr current, w1)"
    and "new_courses_loop (load_existing_courses (logging_info ''Running!'' w)) current [] = Inr []"
  shows "main E w = (Inr (), logging_info ''No new courses found.'' w1)"
  using assms by (simp add: main_def Let_def)

lemma main_returned:
  assumes "main E w = (Inr (), w')"
  shows "\<exists>current w1. get_courses E (logging_info ''Running!'' w) = (Inr current, w1)
           \<and> (new_courses_loop (load_existing_courses w') current [] = Inr [])"
proof -
  let ?w0 = "logging_info ''Running!'' w"
  obtain r1 w1 where g: "get_courses E ?w0 = (r1, w1)" by (cases "get_courses E ?w0")
  from get_courses_frame[OF g] have f: "courses_yml w1 = courses_yml w"
    by (simp add: logging_info_def)
  show ?thesis
  proof (cases r1)
    case (Inl e)
    with assms g show ?thesis by (simp add: main_def Let_def)
  next
    case cur: (Inr current)
    show ?thesis
    proof (cases "new_courses_loop (load_existing_courses ?w0) current []")
      case (Inl e)
      with assms g cur show ?thesis by (simp add: main_def Let_def)
    next
      case new: (Inr new)
      show ?thesis
      proof (cases "new = []")
        case True
        with assms g cur new have "w' = logging_info ''No new courses found.'' w1"
          by (simp add: main_def Let_def)
        with f have "load_existing_courses w' = load_existing_courses ?w0"
          by (simp add: load_existing_courses_def logging_info_def)
        with g cur new True show ?thesis by simp
      next
        case nonempty: False
        show ?thesis
        proof (cases "get_event_loop E")
          case LoopWithoutRun
          with assms g cur new nonempty show ?thesis by (simp add: main_def Let_def)
        next
          case LoopWithRun
          obtain r2 w2 where p: "post_new_courses E new w1 = (r2, w2)"
            by (cases "post_new_courses E new w1")
          show ?thesis
          proof (cases r2)
            case (Inl e)
            with assms g cur new nonempty LoopWithRun p show ?thesis by (simp add: main_def Let_def)
          next
            case (Inr u)
            with assms g cur new nonempty LoopWithRun p
            have "w' = logging_info ''New courses found and posted.'' (save_courses current w2)"
              by (simp add: main_def Let_def)
            then have "load_existing_courses w' = PyList current"
              by (simp add: load_existing_courses_def logging_info_def save_courses_def yaml_dump_def)
            with g cur show ?thesis by (simp add: new_courses_loop_self)
          qed
        qed
      qed
    qed
  qed
qed

lemma main_with_running_loop:
  assumes "get_event_loop E = LoopWithRun"
    and "courses_yml w = Some (SeqDoc [a])"
    and "get_courses E (logging_info ''Running!'' w) = (Inr [a', b], w1)"
    and "course_id a' = course_id a"
    and "course_id b \<noteq> course_id a"
    and "send_message E (length (sends w)) (course_message b) = None"
  shows "\<exists>w'. main E w = (Inr (), w')
       \<and> sends w' = sends w @ [(course_message b, None)]
       \<and> courses_yml w' = Some (SeqDoc [a', b])"
proof -
  have new: "new_courses_loop (load_existing_courses (logging_info ''Running!'' w)) [a', b] [] = Inr [b]"
    using assms(2,4,5) by (simp add: load_existing_courses_def logging_info_def)
  from get_courses_frame[OF assms(3)] have f: "sends w1 = sends w"
    by (simp add: logging_info_def)
  show ?thesis
    using assms(1,3,6) new f
    by (simp add: main_def Let_def logging_info_def save_courses_def yaml_dump_def)
qed





subsection \<open>The example runs, evaluated\<close>

lemma parse_blocks:
  "parse_course identity_digest block_A = Inr course_A"
  "parse_course identity_digest block_B = Inr course_B"
  "parse_course identity_digest block_C = Inr course_C"
  by (simp_all add: parse_course_def block_A_def block_B_def block_C_def course_block_def
      course_A_def course_B_def course_C_def strip_def isspace_def unique_string_def identity_digest_def)

lemma get_courses_env_AB:
  "get_courses (env_AB l) w = (Inr [course_A, course_B], w\<lparr>requested := requested w @ [COURSE_URL]\<rparr>)"
  by (simp add: get_courses_def env_AB_def site_def listing_page_def get_course_page_def
      last_page_def parse_blocks Let_def)






lemma get_courses_env_prev_next:
  "get_courses env_prev_next w = (Inr [course_A], w\<lparr>requested := requested w @ [COURSE_URL]\<rparr>)"
  by (simp add: get_courses_def env_prev_next_def site_def listing_page_def get_course_page_def
      last_page_def parse_blocks Let_def)

lemma env_AB_fields:
  "send_message (env_AB l) = (\<lambda>n text. None)"
  "get_event_loop (env_AB l) = l"
  by (simp_all add: env_AB_def)

lemma main_env_AB_known:
  "main (env_AB l) (fresh_world (Some (SeqDoc [course_A, course_B]))) =
     (Inr (), \<lparr>courses_yml = Some (SeqDoc [course_A, course_B]),
               app_log = [INFO ''Running!'', INFO ''No new courses found.''],
               requested = [COURSE_URL], sends = []\<rparr>)"
  by (simp add: main_def Let_def get_courses_env_AB load_existing_courses_def
      fresh_world_def logging_info_def)

lemma requests_env_two_pages:
  "requests_get env_two_pages COURSE_URL = Inr (listing_page 4 [block_A])"
  "requests_get env_two_pages (page_url 2) = Inr (listing_page 4 [block_B, block_A])"
  "md5_hexdigest env_two_pages = identity_digest"
  by (simp_all add: env_two_pages_def site_def page_url_def)

section \<open>Properties\<close>

text \<open>
  C2. For all lists current and existing, the new courses are the elements of current
  whose id is the id of no element of existing, in the order they have in current.
\<close>

theorem new_courses_exact:
  "new_courses_loop (PyList existing) current [] =
     Inr (filter (\<lambda>e. course_id e \<notin> course_id ` set existing) current)"
  by (simp add: new_courses_loop_acc)

theorem new_courses_exact_witness:
  "new_courses_loop (PyList [course_A]) [course_A, course_B] [] = Inr [course_B]"
  using new_courses_exact[of "[course_A]" "[course_A, course_B]"]
  by (simp add: course_A_def course_B_def)

text \<open>
  C1. The claim: with a snapshot holding a course of id A and a scrape of two courses of
  ids A and B, the run sends one message, for B, and then saves the two courses. What
  main.py does with the event loop of asyncio: the lookup of \<open>run\<close> on the loop raises
  AttributeError, so the run ends with status 1, no message is sent and the snapshot file
  keeps the course of id A alone. (Lemma \<open>main_with_running_loop\<close> above is the same run
  with a loop that has \<open>run\<close>: there the claim holds.)
\<close>

theorem new_course_run_raises:
  assumes "get_event_loop E = asyncio_get_event_loop"
    and "courses_yml w = Some (SeqDoc [a])"
    and "get_courses E (logging_info ''Running!'' w) = (Inr [a', b], w1)"
    and "course_id a' = course_id a"
    and "course_id b \<noteq> course_id a"
  shows "main E w = (Inl (AttributeError ''run''), w1)
       \<and> exit_status (fst (main E w)) = 1
       \<and> sends w1 = sends w
       \<and> courses_yml w1 = Some (SeqDoc [a])"
proof -
  have new: "new_courses_loop (load_existing_courses (logging_info ''Running!'' w)) [a', b] [] = Inr [b]"
    using assms(2,4,5) by (simp add: load_existing_courses_def logging_info_def)
  have m: "main E w = (Inl (AttributeError ''run''), w1)"
    using assms(1,3) new by (simp add: main_def Let_def asyncio_get_event_loop_def)
  from get_courses_frame[OF assms(3)] have "sends w1 = sends w" "courses_yml w1 = courses_yml w"
    by (simp_all add: logging_info_def)
  with m assms(2) show ?thesis by simp
qed

theorem new_course_run_raises_witness:
  "get_event_loop (env_AB asyncio_get_event_loop) = asyncio_get_event_loop
   \<and> courses_yml (fresh_world (Some (SeqDoc [course_A]))) = Some (SeqDoc [course_A])
   \<and> get_courses (env_AB asyncio_get_event_loop) (logging_info ''Running!'' (fresh_world (Some (SeqDoc [course_A]))))
       = (Inr [course_A, course_B],
          \<lparr>courses_yml = Some (SeqDoc [course_A]), app_log = [INFO ''Running!''],
           requested = [COURSE_URL], sends = []\<rparr>)
   \<and> course_id course_B \<noteq> course_id course_A
   \<and> main (env_AB asyncio_get_event_loop) (fresh_world (Some (SeqDoc [course_A])))
       = (Inl (AttributeError ''run''),
          \<lparr>courses_yml = Some (SeqDoc [course_A]), app_log = [INFO ''Running!''],
           requested = [COURSE_URL], sends = []\<rparr>)
   \<and> exit_status (fst (main (env_AB asyncio_get_event_loop) (fresh_world (Some (SeqDoc [course_A]))))) = 1"
proof -
  have l: "get_event_loop (env_AB asyncio_get_event_loop) = asyncio_get_event_loop"
    by (simp add: env_AB_def)
  have y: "courses_yml (fresh_world (Some (SeqDoc [course_A]))) = Some (SeqDoc [course_A])"
    by (simp add: fresh_world_def)
  have g: "get_courses (env_AB asyncio_get_event_loop) (logging_info ''Running!'' (fresh_world (Some (SeqDoc [course_A]))))
       = (Inr [course_A, course_B],
          \<lparr>courses_yml = Some (SeqDoc [course_A]), app_log = [INFO ''Running!''],
           requested = [COURSE_URL], sends = []\<rparr>)"
    by (simp add: get_courses_env_AB fresh_world_def logging_info_def)
  have d: "course_id course_B \<noteq> course_id course_A"
    by (simp add: course_A_def course_B_def)
  from new_course_run_raises[OF l y g refl d] l y g d show ?thesis by simp
qed



text \<open>
  C4. The id that parse_course gives is the digest of the string built from the title,
  the date and the description it returns, so two parsed courses with the same triple
  have the same id: parsing an unchanged course again gives the same id.
\<close>

theorem parse_course_id_deterministic:
  assumes "parse_course md5 e1 = Inr c1" and "parse_course md5 e2 = Inr c2"
    and "title c1 = title c2" and "date c1 = date c2" and "description c1 = description c2"
  shows "course_id c1 = md5 (unique_string (title c1) (date c1) (description c1))
       \<and> course_id c1 = course_id c2"
  using assms
  by (auto simp: parse_course_def split: option.splits dates_lookup.splits)

theorem parse_course_id_deterministic_witness:
  "parse_course identity_digest (course_block '' Python '' ''01.02.2025'' ''Intro'') = Inr course_A
   \<and> parse_course identity_digest (course_block ''Python'' [CHR 0x0A, CHR ''0'', CHR ''1'', CHR ''.'', CHR ''0'', CHR ''2'', CHR ''.'', CHR ''2'', CHR ''0'', CHR ''2'', CHR ''5''] ''Intro '')
       = Inr course_A
   \<and> course_id course_A = identity_digest (unique_string (title course_A) (date course_A) (description course_A))"
proof -
  have a: "parse_course identity_digest (course_block '' Python '' ''01.02.2025'' ''Intro'') = Inr course_A"
    by (simp add: parse_course_def course_block_def course_A_def strip_def isspace_def
        unique_string_def identity_digest_def)
  have b: "parse_course identity_digest (course_block ''Python'' [CHR 0x0A, CHR ''0'', CHR ''1'', CHR ''.'', CHR ''0'', CHR ''2'', CHR ''.'', CHR ''2'', CHR ''0'', CHR ''2'', CHR ''5''] ''Intro '')
       = Inr course_A"
    by (simp add: parse_course_def course_block_def course_A_def strip_def isspace_def
        unique_string_def identity_digest_def)
  from parse_course_id_deterministic[OF a b refl refl refl] a b show ?thesis by simp
qed




text \<open>
  C6. For a first page whose pagination container has n list items, the last page
  number is n - 2 (0 when n is 2), and when it is below 2 get_courses makes the one
  request for the first page and returns what the course blocks of that page parse to.
\<close>

theorem few_pagination_items_single_page:
  assumes "requests_get E COURSE_URL = Inr response"
    and "pagination response = Some pagination_items"
  shows "last_page pagination_items = int (length pagination_items) - 2
       \<and> (length pagination_items = 2 \<longrightarrow> last_page pagination_items = 0)
       \<and> (last_page pagination_items < 2 \<longrightarrow>
            get_courses E w =
              (parse_elements (md5_hexdigest E) (hs_events response) [],
               w\<lparr>requested := requested w @ [COURSE_URL]\<rparr>))"
  using assms
  by (auto simp: last_page_def get_courses_def get_course_page_def Let_def split: sum.splits)

theorem few_pagination_items_single_page_witness:
  "requests_get env_prev_next COURSE_URL = Inr (listing_page 2 [block_A])
   \<and> pagination (listing_page 2 [block_A]) = Some [''li'', ''li'']
   \<and> length [''li'', ''li''] = 2
   \<and> last_page [''li'', ''li''] = 0
   \<and> last_page [''li'', ''li''] < 2
   \<and> get_courses env_prev_next (fresh_world None)
       = (Inr [course_A], \<lparr>courses_yml = None, app_log = [], requested = [COURSE_URL], sends = []\<rparr>)"
proof -
  have a: "requests_get env_prev_next COURSE_URL = Inr (listing_page 2 [block_A])"
    by (simp add: env_prev_next_def site_def)
  have b: "pagination (listing_page 2 [block_A]) = Some [''li'', ''li'']"
    by (simp add: listing_page_def numeral_2_eq_2)
  have c: "parse_elements (md5_hexdigest env_prev_next) (hs_events (listing_page 2 [block_A])) [] = Inr [course_A]"
    by (simp add: env_prev_next_def listing_page_def parse_blocks)
  from few_pagination_items_single_page[OF a b, of "fresh_world None"] a b c
  show ?thesis by (simp add: fresh_world_def)
qed

text \<open>
  C7. For a first page without a pagination container, get_courses logs the error and
  returns the empty list: no course block of the page is parsed, nothing is raised, and
  main goes on and returns.
\<close>

theorem no_pagination_returns_empty:
  assumes "requests_get E COURSE_URL = Inr response"
    and "pagination response = None"
  shows "get_courses E w =
           (Inr [], logging_error ''Pagination container not found''
                      (w\<lparr>requested := requested w @ [COURSE_URL]\<rparr>))
       \<and> fst (main E w) = Inr ()"
  using assms
  by (simp add: get_courses_def main_def Let_def)

theorem no_pagination_returns_empty_witness:
  "requests_get env_no_pagination COURSE_URL = Inr \<lparr>pagination = None, hs_events = [block_A]\<rparr>
   \<and> pagination \<lparr>pagination = None, hs_events = [block_A]\<rparr> = None
   \<and> get_courses env_no_pagination (fresh_world None)
       = (Inr [], \<lparr>courses_yml = None, app_log = [ERROR ''Pagination container not found''],
                  requested = [COURSE_URL], sends = []\<rparr>)
   \<and> fst (main env_no_pagination (fresh_world None)) = Inr ()"
proof -
  have a: "requests_get env_no_pagination COURSE_URL = Inr \<lparr>pagination = None, hs_events = [block_A]\<rparr>"
    by (simp add: env_no_pagination_def site_def)
  have b: "pagination \<lparr>pagination = None, hs_events = [block_A]\<rparr> = None"
    by simp
  from no_pagination_returns_empty[OF a b, of "fresh_world None"] a b
  show ?thesis by (simp add: fresh_world_def logging_error_def)
qed

text \<open>
  C8. A run whose list of new courses is empty sends nothing, leaves the snapshot file as
  it was, logs that there is no new course and returns (status 0). Hence, after a run
  that returned, a second run on the same site finds no new course and leaves the
  snapshot file as the first run left it.
\<close>

theorem no_new_courses_no_effect:
  "(get_courses E (logging_info ''Running!'' w) = (Inr current, w1)
      \<and> new_courses_loop (load_existing_courses (logging_info ''Running!'' w)) current [] = Inr []
    \<longrightarrow> main E w = (Inr (), logging_info ''No new courses found.'' w1)
        \<and> exit_status (fst (main E w)) = 0
        \<and> sends (snd (main E w)) = sends w
        \<and> courses_yml (snd (main E w)) = courses_yml w)
   \<and> (main E w = (Inr (), w')
    \<longrightarrow> (\<exists>current' w2.
           get_courses E (logging_info ''Running!'' w') = (Inr current', w2)
         \<and> new_courses_loop (load_existing_courses (logging_info ''Running!'' w')) current' [] = Inr []
         \<and> main E w' = (Inr (), logging_info ''No new courses found.'' w2)
         \<and> sends (snd (main E w')) = sends w'
         \<and> courses_yml (snd (main E w')) = courses_yml w'))"
proof (intro conjI impI)
  assume a: "get_courses E (logging_info ''Running!'' w) = (Inr current, w1)
      \<and> new_courses_loop (load_existing_courses (logging_info ''Running!'' w)) current [] = Inr []"
  then have m: "main E w = (Inr (), logging_info ''No new courses found.'' w1)"
    by (simp add: main_no_new)
  from a get_courses_frame[of E "logging_info ''Running!'' w" "Inr current" w1]
  have f: "sends w1 = sends w" "courses_yml w1 = courses_yml w"
    by (simp_all add: logging_info_def)
  show "main E w = (Inr (), logging_info ''No new courses found.'' w1)" by (rule m)
  show "exit_status (fst (main E w)) = 0" by (simp add: m)
  show "sends (snd (main E w)) = sends w" by (simp add: m f logging_info_def)
  show "courses_yml (snd (main E w)) = courses_yml w" by (simp add: m f logging_info_def)
next
  assume a: "main E w = (Inr (), w')"
  from main_returned[OF a] obtain current v1 where
    g: "get_courses E (logging_info ''Running!'' w) = (Inr current, v1)" and
    n: "new_courses_loop (load_existing_courses w') current [] = Inr []"
    by blast
  obtain r2 w2 where g2: "get_courses E (logging_info ''Running!'' w') = (r2, w2)"
    by (cases "get_courses E (logging_info ''Running!'' w')")
  from get_courses_result[of E "logging_info ''Running!'' w'" "logging_info ''Running!'' w"] g g2
  have r2: "r2 = Inr current" by simp
  from n have n2: "new_courses_loop (load_existing_courses (logging_info ''Running!'' w')) current [] = Inr []"
    by (simp add: load_existing_courses_logged)
  from g2 r2 n2 have m: "main E w' = (Inr (), logging_info ''No new courses found.'' w2)"
    by (simp add: main_no_new)
  from get_courses_frame[OF g2] have f: "sends w2 = sends w'" "courses_yml w2 = courses_yml w'"
    by (simp_all add: logging_info_def)
  from g2 r2 n2 m f
  show "\<exists>current' w2.
           get_courses E (logging_info ''Running!'' w') = (Inr current', w2)
         \<and> new_courses_loop (load_existing_courses (logging_info ''Running!'' w')) current' [] = Inr []
         \<and> main E w' = (Inr (), logging_info ''No new courses found.'' w2)
         \<and> sends (snd (main E w')) = sends w'
         \<and> courses_yml (snd (main E w')) = courses_yml w'"
    by (simp add: logging_info_def)
qed

theorem no_new_courses_no_effect_witness:
  "get_courses (env_AB asyncio_get_event_loop)
       (logging_info ''Running!'' (fresh_world (Some (SeqDoc [course_A, course_B]))))
     = (Inr [course_A, course_B],
        \<lparr>courses_yml = Some (SeqDoc [course_A, course_B]), app_log = [INFO ''Running!''],
         requested = [COURSE_URL], sends = []\<rparr>)
   \<and> new_courses_loop
        (load_existing_courses (logging_info ''Running!'' (fresh_world (Some (SeqDoc [course_A, course_B])))))
        [course_A, course_B] [] = Inr []
   \<and> main (env_AB asyncio_get_event_loop) (fresh_world (Some (SeqDoc [course_A, course_B])))
     = (Inr (), \<lparr>courses_yml = Some (SeqDoc [course_A, course_B]),
                 app_log = [INFO ''Running!'', INFO ''No new courses found.''],
                 requested = [COURSE_URL], sends = []\<rparr>)
   \<and> fst (main (env_AB asyncio_get_event_loop)
            \<lparr>courses_yml = Some (SeqDoc [course_A, course_B]),
             app_log = [INFO ''Running!'', INFO ''No new courses found.''],
             requested = [COURSE_URL], sends = []\<rparr>) = Inr ()
   \<and> courses_yml (snd (main (env_AB asyncio_get_event_loop)
            \<lparr>courses_yml = Some (SeqDoc [course_A, course_B]),
             app_log = [INFO ''Running!'', INFO ''No new courses found.''],
             requested = [COURSE_URL], sends = []\<rparr>)) = Some (SeqDoc [course_A, course_B])
   \<and> sends (snd (main (env_AB asyncio_get_event_loop)
            \<lparr>courses_yml = Some (SeqDoc [course_A, course_B]),
             app_log = [INFO ''Running!'', INFO ''No new courses found.''],
             requested = [COURSE_URL], sends = []\<rparr>)) = []"
proof -
  let ?E = "env_AB asyncio_get_event_loop"
  let ?w = "fresh_world (Some (SeqDoc [course_A, course_B]))"
  let ?w1 = "\<lparr>courses_yml = Some (SeqDoc [course_A, course_B]), app_log = [INFO ''Running!''],
         requested = [COURSE_URL], sends = []\<rparr>"
  let ?w' = "\<lparr>courses_yml = Some (SeqDoc [course_A, course_B]),
             app_log = [INFO ''Running!'', INFO ''No new courses found.''],
             requested = [COURSE_URL], sends = []\<rparr>"
  have g: "get_courses ?E (logging_info ''Running!'' ?w) = (Inr [course_A, course_B], ?w1)"
    by (simp add: get_courses_env_AB fresh_world_def logging_info_def)
  have n: "new_courses_loop (load_existing_courses (logging_info ''Running!'' ?w)) [course_A, course_B] [] = Inr []"
    by (simp add: load_existing_courses_def fresh_world_def logging_info_def)
  have m: "main ?E ?w = (Inr (), ?w')"
    by (rule main_env_AB_known)
  note t = no_new_courses_no_effect[of ?E ?w "[course_A, course_B]" ?w1 ?w']
  from t g n have first: "sends (snd (main ?E ?w)) = sends ?w" by blast
  from t m obtain current' w2 where
    second: "main ?E ?w' = (Inr (), logging_info ''No new courses found.'' w2)"
      "sends (snd (main ?E ?w')) = sends ?w'" "courses_yml (snd (main ?E ?w')) = courses_yml ?w'"
    by blast
  from g n m second show ?thesis by simp
qed

text \<open>
  C9. When the last page number is at least 2 and every page is fetched and parsed,
  get_courses returns the courses of page 1 followed by those of the pages 2 to
  last_page, in page order and in document order within a page, nothing removed; page n
  is requested at the base URL followed by \<open>&event_page=\<close> and the number n.
\<close>

theorem all_pages_in_order:
  assumes "requests_get E COURSE_URL = Inr first"
    and "pagination first = Some pagination_items"
    and "2 \<le> last_page pagination_items"
    and "\<forall>n \<in> {2..last_page pagination_items}. requests_get E (page_url n) = Inr (pg n)"
    and "\<forall>el \<in> set (hs_events first). parse_course (md5_hexdigest E) el = Inr (pc el)"
    and "\<forall>n \<in> {2..last_page pagination_items}. \<forall>el \<in> set (hs_events (pg n)).
           parse_course (md5_hexdigest E) el = Inr (pc el)"
  shows "get_courses E w =
           (Inr (map pc (hs_events first)
                 @ concat (map (\<lambda>n. map pc (hs_events (pg n))) [2..last_page pagination_items])),
            w\<lparr>requested := requested w @ COURSE_URL
                 # map (\<lambda>n. COURSE_URL @ ''&event_page='' @ str_int n) [2..last_page pagination_items]\<rparr>)"
proof -
  let ?w1 = "w\<lparr>requested := requested w @ [COURSE_URL]\<rparr>"
  have "parse_elements (md5_hexdigest E) (hs_events first) [] = Inr ([] @ map pc (hs_events first))"
    by (rule parse_elements_acc) (simp add: assms(5))
  then have p1: "get_course_page E 1 (Some first) ?w1 = (Inr (map pc (hs_events first)), ?w1)"
    by (simp add: get_course_page_def)
  have loop: "pages_loop E [2..last_page pagination_items] (map pc (hs_events first)) ?w1 =
      (Inr (map pc (hs_events first) @ concat (map (\<lambda>n. map pc (hs_events (pg n))) [2..last_page pagination_items])),
       ?w1\<lparr>requested := requested ?w1 @ map page_url [2..last_page pagination_items]\<rparr>)"
    by (rule pages_loop_ok) (use assms(4,6) in simp_all)
  have u: "page_url = (\<lambda>n. COURSE_URL @ ''&event_page='' @ str_int n)"
    by (rule ext) (simp add: page_url_def)
  from assms(1,2,3) p1 loop show ?thesis
    unfolding u by (simp add: get_courses_def Let_def)
qed

theorem all_pages_in_order_witness:
  "requests_get env_two_pages COURSE_URL = Inr (listing_page 4 [block_A])
   \<and> pagination (listing_page 4 [block_A]) = Some (replicate 4 ''li'')
   \<and> 2 \<le> last_page (replicate 4 ''li'')
   \<and> requests_get env_two_pages (page_url 2) = Inr (listing_page 4 [block_B, block_A])
   \<and> get_courses env_two_pages (fresh_world None)
       = (Inr [course_A, course_B, course_A],
          \<lparr>courses_yml = None, app_log = [],
           requested = [COURSE_URL, COURSE_URL @ ''&event_page=2''], sends = []\<rparr>)"
proof -
  let ?pc = "\<lambda>el. projr (parse_course identity_digest el)"
  let ?pg = "\<lambda>n::int. listing_page 4 [block_B, block_A]"
  have lp: "last_page (replicate 4 ''li'') = 2" by (simp add: last_page_def)
  have a: "requests_get env_two_pages COURSE_URL = Inr (listing_page 4 [block_A])"
    by (rule requests_env_two_pages)
  have b: "pagination (listing_page 4 [block_A]) = Some (replicate 4 ''li'')"
    by (simp add: listing_page_def)
  have c: "2 \<le> last_page (replicate 4 ''li'')" by (simp add: lp)
  have d: "\<forall>n \<in> {2..last_page (replicate 4 ''li'')}. requests_get env_two_pages (page_url n) = Inr (?pg n)"
    by (simp add: lp requests_env_two_pages)
  have e: "\<forall>el \<in> set (hs_events (listing_page 4 [block_A])).
             parse_course (md5_hexdigest env_two_pages) el = Inr (?pc el)"
    by (simp add: listing_page_def requests_env_two_pages parse_blocks)
  have f: "\<forall>n \<in> {2..last_page (replicate 4 ''li'')}. \<forall>el \<in> set (hs_events (?pg n)).
             parse_course (md5_hexdigest env_two_pages) el = Inr (?pc el)"
    by (simp add: listing_page_def requests_env_two_pages parse_blocks)
  have u: "[2..(2::int)] = [2]" by (simp add: upto.simps)
  from all_pages_in_order[OF a b c d e f, of "fresh_world None"] a b c
  show ?thesis
    by (simp add: lp u listing_page_def parse_blocks requests_env_two_pages fresh_world_def str_int_def)
qed

text \<open>
  C10. The empty list comes from the branch for a missing file; for a file that exists,
  load_existing_courses returns what the deserialiser gives. For an empty document that is
  None, not the empty list, and the loop of main that looks for new courses raises
  TypeError at the first scraped course.
\<close>

theorem empty_snapshot_loads_none:
  "load_existing_courses (w\<lparr>courses_yml := None\<rparr>) = PyList []
   \<and> load_existing_courses (w\<lparr>courses_yml := Some doc\<rparr>) = yaml_safe_load doc
   \<and> load_existing_courses (w\<lparr>courses_yml := Some EmptyDoc\<rparr>) = PyNone
   \<and> load_existing_courses (w\<lparr>courses_yml := Some EmptyDoc\<rparr>) \<noteq> PyList []
   \<and> new_courses_loop (load_existing_courses (w\<lparr>courses_yml := Some EmptyDoc\<rparr>)) (e # es) acc
       = Inl (TypeError ''NoneType'')
   \<and> (get_courses E (logging_info ''Running!'' (w\<lparr>courses_yml := Some EmptyDoc\<rparr>)) = (Inr (e # es), w1)
        \<longrightarrow> main E (w\<lparr>courses_yml := Some EmptyDoc\<rparr>) = (Inl (TypeError ''NoneType''), w1)
          \<and> exit_status (fst (main E (w\<lparr>courses_yml := Some EmptyDoc\<rparr>))) = 1)"
  by (simp add: load_existing_courses_def main_def Let_def logging_info_def)

theorem empty_snapshot_loads_none_witness:
  "get_courses (env_AB asyncio_get_event_loop)
      (logging_info ''Running!'' ((fresh_world None)\<lparr>courses_yml := Some EmptyDoc\<rparr>))
     = (Inr [course_A, course_B],
        \<lparr>courses_yml = Some EmptyDoc, app_log = [INFO ''Running!''], requested = [COURSE_URL], sends = []\<rparr>)
   \<and> main (env_AB asyncio_get_event_loop) ((fresh_world None)\<lparr>courses_yml := Some EmptyDoc\<rparr>)
     = (Inl (TypeError ''NoneType''),
        \<lparr>courses_yml = Some EmptyDoc, app_log = [INFO ''Running!''], requested = [COURSE_URL], sends = []\<rparr>)
   \<and> load_existing_courses ((fresh_world None)\<lparr>courses_yml := Some EmptyDoc\<rparr>) = PyNone
   \<and> load_existing_courses ((fresh_world None)\<lparr>courses_yml := None\<rparr>) = PyList []"
proof -
  have g: "get_courses (env_AB asyncio_get_event_loop)
      (logging_info ''Running!'' ((fresh_world None)\<lparr>courses_yml := Some EmptyDoc\<rparr>))
     = (Inr [course_A, course_B],
        \<lparr>courses_yml = Some EmptyDoc, app_log = [INFO ''Running!''], requested = [COURSE_URL], sends = []\<rparr>)"
    by (simp add: get_courses_env_AB fresh_world_def logging_info_def)
  from empty_snapshot_loads_none[of "fresh_world None" EmptyDoc course_A "[course_B]" "[]"
      "env_AB asyncio_get_event_loop"
      "\<lparr>courses_yml = Some EmptyDoc, app_log = [INFO ''Running!''], requested = [COURSE_URL], sends = []\<rparr>"] g
  show ?thesis by simp
qed

end
